theory Spec2Isabelle
  imports Complex_Main "HOL-Library.AList"
begin

section \<open>GrokSearch: a shallow embedding of the tool surface, the configuration and the formatter\<close>

text \<open>
  The development follows the Python sources: \<^verbatim>\<open>grok_search/utils.py\<close> (the result
  formatter), \<^verbatim>\<open>grok_search/server.py\<close> (the four tool operations) and
  \<^verbatim>\<open>search_mcp/config.py\<close> (the configuration singleton). Python strings are
  modelled as \<^typ>\<open>string\<close>; a character outside ASCII stands as its UTF-8 bytes.
  Exceptions are values: a function that may raise returns \<open>exn + 'a\<close>, with \<open>Inl\<close>
  the exception that leaves the function.
\<close>

subsection \<open>Strings\<close>

text \<open>\<^verbatim>\<open>sep.join(parts)\<close> of Python.\<close>

fun join :: "string \<Rightarrow> string list \<Rightarrow> string" where
  "join sep [] = []"
| "join sep [x] = x"
| "join sep (x # y # ys) = x @ sep @ join sep (y # ys)"

text \<open>\<^verbatim>\<open>str(n)\<close> for a natural number: its decimal digits.\<close>

definition digit_char :: "nat \<Rightarrow> char" where
  "digit_char d = ''0123456789'' ! d"

fun str_nat :: "nat \<Rightarrow> string" where
  "str_nat n = (if n < 10 then [digit_char n] else str_nat (n div 10) @ [digit_char (n mod 10)])"

declare str_nat.simps [simp del]

text \<open>Python's truth value of a string and of an optional string (\<open>None\<close> and \<open>""\<close> are false).\<close>

definition truthy :: "string \<Rightarrow> bool" where
  "truthy s = (s \<noteq> [])"

definition truthy_opt :: "string option \<Rightarrow> bool" where
  "truthy_opt v = (case v of None \<Rightarrow> False | Some s \<Rightarrow> s \<noteq> [])"

subsection \<open>The result formatter (\<^verbatim>\<open>utils.py\<close>)\<close>

text \<open>
  \<^verbatim>\<open>SearchResult\<close> is declared in \<^verbatim>\<open>providers/base.py\<close>; the formatter reads the
  five fields below, of which \<open>source\<close> and \<open>published_date\<close> may be \<open>None\<close>.
\<close>

record SearchResult =
  title :: string
  url :: string
  snippet :: string
  source :: "string option"
  published_date :: "string option"

text \<open>The f-string of an optional field: only evaluated where the field is true.\<close>

definition opt_text :: "string option \<Rightarrow> string" where
  "opt_text v = (case v of None \<Rightarrow> ''None'' | Some s \<Rightarrow> s)"

text \<open>
  The body of the \<^verbatim>\<open>for\<close> loop: \<open>parts\<close> starts with the heading and grows by one
  \<^verbatim>\<open>append\<close> per true field, in the order of the source; the block is
  \<^verbatim>\<open>"\n".join(parts)\<close>.
\<close>

definition result_parts :: "nat \<Rightarrow> SearchResult \<Rightarrow> string list" where
  "result_parts i r =
    (let parts = [''## Result '' @ str_nat i @ '': '' @ title r];
         parts = (if truthy (url r) then parts @ [''**URL:** '' @ url r] else parts);
         parts = (if truthy (snippet r) then parts @ [''**Summary:** '' @ snippet r] else parts);
         parts = (if truthy_opt (source r) then parts @ [''**Source:** '' @ opt_text (source r)] else parts);
         parts = (if truthy_opt (published_date r)
                  then parts @ [''**Published:** '' @ opt_text (published_date r)] else parts)
     in parts)"

text \<open>
  The loop over \<^verbatim>\<open>enumerate(results, 1)\<close>: \<open>i\<close> is the running index and
  \<open>formatted\<close> the list built so far.
\<close>

fun format_loop :: "nat \<Rightarrow> SearchResult list \<Rightarrow> string list \<Rightarrow> string list" where
  "format_loop i [] formatted = formatted"
| "format_loop i (r # rs) formatted =
     format_loop (Suc i) rs (formatted @ [join ''\<newline>'' (result_parts i r)])"

definition block_separator :: string where
  "block_separator = ''\<newline>\<newline>---\<newline>\<newline>''"

definition format_search_results :: "SearchResult list \<Rightarrow> string" where
  "format_search_results results =
     (if results = [] then ''No results found.''
      else join block_separator (format_loop 1 results []))"

text \<open>
  The formatter as the description words it: the block of the \<open>i\<close>-th result is its
  heading followed by the labelled lines of exactly the non-empty fields, in the order
  URL, Summary, Source, Published.
\<close>

definition field_lines :: "SearchResult \<Rightarrow> string list" where
  "field_lines r =
     map (\<lambda>(label, v). label @ v)
       (filter (\<lambda>(label, v). v \<noteq> [])
         [(''**URL:** '', url r),
          (''**Summary:** '', snippet r),
          (''**Source:** '', case source r of None \<Rightarrow> [] | Some s \<Rightarrow> s),
          (''**Published:** '', case published_date r of None \<Rightarrow> [] | Some s \<Rightarrow> s)])"

definition described_block :: "nat \<Rightarrow> SearchResult \<Rightarrow> string" where
  "described_block i r =
     join ''\<newline>'' ((''## Result '' @ str_nat i @ '': '' @ title r) # field_lines r)"

subsection \<open>Exceptions\<close>

text \<open>
  The exception classes the sources name or can meet. \<open>ValueErrorSubclass cls msg\<close> is
  any other class that derives from \<^verbatim>\<open>ValueError\<close> (a JSON or Unicode decoding error,
  for one), \<open>OtherException cls msg\<close> any other subclass of \<^verbatim>\<open>Exception\<close>.
  \<^verbatim>\<open>str(e)\<close> is the message.
\<close>

datatype exn =
    ValueError string
  | AttributeError string
  | TypeError string
  | FileNotFoundError string
  | OSError string
  | TOMLDecodeError string
  | TimeoutException string
  | RequestError string
  | ValueErrorSubclass string string
  | OtherException string string

fun exn_message :: "exn \<Rightarrow> string" where
  "exn_message (ValueError m) = m"
| "exn_message (AttributeError m) = m"
| "exn_message (TypeError m) = m"
| "exn_message (FileNotFoundError m) = m"
| "exn_message (OSError m) = m"
| "exn_message (TOMLDecodeError m) = m"
| "exn_message (TimeoutException m) = m"
| "exn_message (RequestError m) = m"
| "exn_message (ValueErrorSubclass c m) = m"
| "exn_message (OtherException c m) = m"

text \<open>
  What \<^verbatim>\<open>except ValueError\<close> catches: the class and its subclasses
  (\<^verbatim>\<open>tomllib.TOMLDecodeError\<close> derives from \<^verbatim>\<open>ValueError\<close>).
\<close>

fun is_ValueError :: "exn \<Rightarrow> bool" where
  "is_ValueError (ValueError m) = True"
| "is_ValueError (TOMLDecodeError m) = True"
| "is_ValueError (ValueErrorSubclass c m) = True"
| "is_ValueError e = False"

subsection \<open>The configuration singleton (\<^verbatim>\<open>search_mcp/config.py\<close>)\<close>

text \<open>
  \<^verbatim>\<open>_config_data\<close> is what \<^verbatim>\<open>tomllib.load\<close> returns: a dictionary from keys to
  TOML values, themselves strings, integers, floats, booleans, date-times, local dates,
  local times, arrays or tables.
\<close>

datatype toml =
    TStr string
  | TInt int
  | TFloat real
  | TBool bool
  | TDateTime string
  | TDate string
  | TTime string
  | TArray "toml list"
  | TTable "(string \<times> toml) list"

type_synonym config_data = "(string \<times> toml) list"

text \<open>Python's truth value, as \<^verbatim>\<open>if not url\<close> tests it.\<close>

fun truthy_toml :: "toml \<Rightarrow> bool" where
  "truthy_toml (TStr s) = (s \<noteq> [])"
| "truthy_toml (TInt i) = (i \<noteq> 0)"
| "truthy_toml (TFloat x) = (x \<noteq> 0)"
| "truthy_toml (TBool b) = b"
| "truthy_toml (TDateTime d) = True"
| "truthy_toml (TDate d) = True"
| "truthy_toml (TTime t) = True"
| "truthy_toml (TArray xs) = (xs \<noteq> [])"
| "truthy_toml (TTable kv) = (kv \<noteq> [])"

fun type_name :: "toml \<Rightarrow> string" where
  "type_name (TStr s) = ''str''"
| "type_name (TInt i) = ''int''"
| "type_name (TFloat x) = ''float''"
| "type_name (TBool b) = ''bool''"
| "type_name (TDateTime d) = ''datetime.datetime''"
| "type_name (TDate d) = ''datetime.date''"
| "type_name (TTime t) = ''datetime.time''"
| "type_name (TArray xs) = ''list''"
| "type_name (TTable kv) = ''dict''"

text \<open>\<^verbatim>\<open>self._config_data.get(name, {})\<close>: the entry, or the empty dictionary.\<close>

definition section_of :: "config_data \<Rightarrow> string \<Rightarrow> toml" where
  "section_of d name = (case map_of d name of None \<Rightarrow> TTable [] | Some v \<Rightarrow> v)"

definition apostrophe :: string where
  "apostrophe = [CHR 0x27]"

text \<open>
  \<^verbatim>\<open>.get(key)\<close> on that entry: a lookup when the entry is a table; any other value has
  no method \<^verbatim>\<open>get\<close>, and Python raises \<^verbatim>\<open>AttributeError\<close> with the class name of
  the value in its message.
\<close>

definition no_attribute_get :: "toml \<Rightarrow> exn" where
  "no_attribute_get v =
     AttributeError (apostrophe @ type_name v @ apostrophe @ '' object has no attribute ''
        @ apostrophe @ ''get'' @ apostrophe)"

definition dict_get :: "toml \<Rightarrow> string \<Rightarrow> exn + toml option" where
  "dict_get v key =
     (case v of
        TTable kv \<Rightarrow> Inr (map_of kv key)
      | _ \<Rightarrow> Inl (no_attribute_get v))"

definition grok_api_url :: "config_data \<Rightarrow> exn + toml" where
  "grok_api_url d =
     (case dict_get (section_of d ''grok'') ''api_url'' of
        Inl e \<Rightarrow> Inl e
      | Inr None \<Rightarrow> Inl (ValueError ''grok.api_url not configured'')
      | Inr (Some u) \<Rightarrow>
          if \<not> truthy_toml u then Inl (ValueError ''grok.api_url not configured'') else Inr u)"

definition grok_api_key :: "config_data \<Rightarrow> exn + toml" where
  "grok_api_key d =
     (case dict_get (section_of d ''grok'') ''api_key'' of
        Inl e \<Rightarrow> Inl e
      | Inr None \<Rightarrow> Inl (ValueError ''grok.api_key not configured'')
      | Inr (Some k) \<Rightarrow>
          if \<not> truthy_toml k then Inl (ValueError ''grok.api_key not configured'') else Inr k)"

text \<open>\<^verbatim>\<open>.get(key, default)\<close> of the three accessors that have a default.\<close>

definition dict_get_default :: "toml \<Rightarrow> string \<Rightarrow> toml \<Rightarrow> exn + toml" where
  "dict_get_default v key dflt =
     (case dict_get v key of Inl e \<Rightarrow> Inl e | Inr None \<Rightarrow> Inr dflt | Inr (Some x) \<Rightarrow> Inr x)"

definition debug_enabled :: "config_data \<Rightarrow> exn + toml" where
  "debug_enabled d = dict_get_default (section_of d ''debug'') ''enabled'' (TBool False)"

definition log_level :: "config_data \<Rightarrow> exn + toml" where
  "log_level d = dict_get_default (section_of d ''logging'') ''level'' (TStr ''INFO'')"

definition log_dir :: "config_data \<Rightarrow> exn + toml" where
  "log_dir d = dict_get_default (section_of d ''logging'') ''dir'' (TStr ''logs'')"

text \<open>
  \<^verbatim>\<open>_load_config\<close>. The file system and the TOML parser are outside the repository:
  \<open>file_exists\<close> is \<^verbatim>\<open>config_path.exists()\<close> and \<open>loaded\<close> is the outcome of opening
  the file and of \<^verbatim>\<open>tomllib.load\<close>, the dictionary or the exception either raises.
\<close>

definition load_config :: "string \<Rightarrow> bool \<Rightarrow> exn + config_data \<Rightarrow> exn + config_data" where
  "load_config config_path file_exists loaded =
     (if \<not> file_exists
      then Inl (FileNotFoundError (''Configuration file not found: '' @ config_path))
      else loaded)"

text \<open>
  \<^verbatim>\<open>Config.__new__\<close>, with the class attribute \<^verbatim>\<open>_instance\<close> passed in and returned.
  An instance is represented by its \<^verbatim>\<open>_config_data\<close>. The source stores the new
  instance in \<^verbatim>\<open>_instance\<close> before it calls \<^verbatim>\<open>_load_config\<close>, so a failed load leaves
  an instance whose data is the class default, the empty dictionary.
\<close>

definition Config_new ::
  "config_data option \<Rightarrow> string \<Rightarrow> bool \<Rightarrow> exn + config_data
     \<Rightarrow> (exn + config_data) \<times> config_data option" where
  "Config_new instance config_path file_exists loaded =
     (case instance of
        Some c \<Rightarrow> (Inr c, Some c)
      | None \<Rightarrow>
          (case load_config config_path file_exists loaded of
             Inl e \<Rightarrow> (Inl e, Some [])
           | Inr d \<Rightarrow> (Inr d, Some d)))"

text \<open>
  The module body of \<^verbatim>\<open>search_mcp/logger.py\<close>, which runs when the module is
  imported: it reads \<^verbatim>\<open>config.log_dir\<close>, joins the path and creates the directory, reads
  \<^verbatim>\<open>config.log_level\<close> twice for \<^verbatim>\<open>getattr(logging, ...)\<close> and opens the log file.
  Directory creation, the attribute lookup in the \<^verbatim>\<open>logging\<close> module and the file
  handler are outside the repository and are parameters: \<open>mkdir\<close> and \<open>open_handler\<close>
  are the exception raised, if any, and \<open>logging_getattr\<close> maps the configured level to
  the exception raised or to the level. The result is the exception that leaves the
  import, if any.
\<close>

definition logger_import ::
  "config_data \<Rightarrow> (toml \<Rightarrow> exn option) \<Rightarrow> (toml \<Rightarrow> exn + 'l) \<Rightarrow> exn option \<Rightarrow> exn option" where
  "logger_import d mkdir logging_getattr open_handler =
     (case log_dir d of
        Inl e \<Rightarrow> Some e
      | Inr dir \<Rightarrow>
          (case mkdir dir of
             Some e \<Rightarrow> Some e
           | None \<Rightarrow>
               (case log_level d of
                  Inl e \<Rightarrow> Some e
                | Inr lvl \<Rightarrow>
                    (case logging_getattr lvl of
                       Inl e \<Rightarrow> Some e
                     | Inr l \<Rightarrow> open_handler))))"

subsection \<open>The tool surface (\<^verbatim>\<open>server.py\<close>)\<close>

text \<open>
  The server reads its settings through the properties of the \<^verbatim>\<open>config\<close> object of
  \<^verbatim>\<open>grok_search.config\<close>, a module of another package than the configuration
  singleton above. A property either returns a value or raises, so the tool operations
  take the outcome of each read: \<open>access_api_url\<close> is \<^verbatim>\<open>config.grok_api_url\<close>, and
  so on. The values are passed on untouched, whence the type parameter.
\<close>

record 'v config_access =
  access_api_url :: "exn + 'v"
  access_api_key :: "exn + 'v"
  access_model :: "exn + 'v"
  access_debug :: "exn + 'v"

text \<open>The arguments of \<^verbatim>\<open>GrokSearchProvider(api_url, api_key, model)\<close>.\<close>

record 'v GrokSearchProvider =
  api_url :: 'v
  api_key :: 'v
  model :: 'v

text \<open>
  The configuration as \<^verbatim>\<open>web_search\<close> and \<^verbatim>\<open>web_fetch\<close> read it: they read
  \<^verbatim>\<open>config.debug_enabled\<close> twice, once for each log line, and the second read has an
  outcome of its own.
\<close>

record 'v tool_config = "'v config_access" +
  access_debug_again :: "exn + 'v"

text \<open>
  What the two tools call besides the configuration: \<^verbatim>\<open>ctx.report_progress\<close>,
  \<^verbatim>\<open>log_info\<close>, the constructor of the provider and its two methods. Each returns
  or raises; \<open>'c\<close> is the context object and \<open>'p\<close> the provider object. A call that
  returns nothing gives the exception it raises, if any.
\<close>

record ('c, 'v, 'p) tool_env =
  report_progress :: "'c \<Rightarrow> string \<Rightarrow> exn option"
  log_info :: "'c option \<Rightarrow> string \<Rightarrow> 'v \<Rightarrow> exn option"
  construct_provider :: "'v \<Rightarrow> 'v \<Rightarrow> 'v \<Rightarrow> exn + 'p"
  provider_search :: "'p \<Rightarrow> string \<Rightarrow> string \<Rightarrow> int \<Rightarrow> int \<Rightarrow> 'c option \<Rightarrow> exn + string"
  provider_fetch :: "'p \<Rightarrow> string \<Rightarrow> 'c option \<Rightarrow> exn + string"

text \<open>
  The three reads inside the \<^verbatim>\<open>try\<close> block of \<^verbatim>\<open>web_search\<close> and
  \<^verbatim>\<open>web_fetch\<close>, in the order of the source: the first that raises ends the block.
\<close>

definition read_provider_settings ::
  "('v, 'm) config_access_scheme \<Rightarrow> exn + 'v GrokSearchProvider" where
  "read_provider_settings cfg =
     (case access_api_url cfg of
        Inl e \<Rightarrow> Inl e
      | Inr u \<Rightarrow>
          (case access_api_key cfg of
             Inl e \<Rightarrow> Inl e
           | Inr k \<Rightarrow>
               (case access_model cfg of
                  Inl e \<Rightarrow> Inl e
                | Inr m \<Rightarrow> Inr \<lparr>api_url = u, api_key = k, model = m\<rparr>)))"

text \<open>
  The handler \<^verbatim>\<open>except ValueError as e\<close>: an exception that is not a
  \<^verbatim>\<open>ValueError\<close> leaves the function. For a \<^verbatim>\<open>ValueError\<close> the handler calls
  \<^verbatim>\<open>ctx.report_progress(error_msg)\<close> when a context is given, which may raise in its
  turn, and returns the string.
\<close>

definition configuration_error ::
  "('c, 'v, 'p) tool_env \<Rightarrow> 'c option \<Rightarrow> exn \<Rightarrow> exn + string" where
  "configuration_error env ctx e =
     (if is_ValueError e
      then (case ctx of
              None \<Rightarrow> Inr (''Configuration error: '' @ exn_message e)
            | Some c \<Rightarrow>
                (case report_progress env c (exn_message e) of
                   Some e' \<Rightarrow> Inl e'
                 | None \<Rightarrow> Inr (''Configuration error: '' @ exn_message e)))
      else Inl e)"

text \<open>
  \<^verbatim>\<open>web_search\<close>. After the \<^verbatim>\<open>try\<close> block no call stands in a handler: the
  constructor, the read of the debug flag, the first log line, the search, the second
  read of the debug flag and the second log line run in this order, and the first
  exception leaves the function.
\<close>

definition web_search ::
  "('c, 'v, 'p) tool_env \<Rightarrow> 'v tool_config \<Rightarrow> string \<Rightarrow> string \<Rightarrow> int \<Rightarrow> int \<Rightarrow> 'c option
     \<Rightarrow> exn + string" where
  "web_search env cfg query platform min_results max_results ctx =
     (case read_provider_settings cfg of
        Inl e \<Rightarrow> configuration_error env ctx e
      | Inr s \<Rightarrow>
          (case construct_provider env (api_url s) (api_key s) (model s) of
             Inl e \<Rightarrow> Inl e
           | Inr grok_provider \<Rightarrow>
          (case access_debug cfg of
             Inl e \<Rightarrow> Inl e
           | Inr dbg \<Rightarrow>
          (case log_info env ctx (''Begin Search: '' @ query) dbg of
             Some e \<Rightarrow> Inl e
           | None \<Rightarrow>
          (case provider_search env grok_provider query platform min_results max_results ctx of
             Inl e \<Rightarrow> Inl e
           | Inr results \<Rightarrow>
          (case access_debug_again cfg of
             Inl e \<Rightarrow> Inl e
           | Inr dbg' \<Rightarrow>
          (case log_info env ctx ''Search Finished!'' dbg' of
             Some e \<Rightarrow> Inl e
           | None \<Rightarrow> Inr results)))))))"

text \<open>
  \<^verbatim>\<open>web_fetch\<close>: here the first log line, with its read of the debug flag, comes
  before the constructor.
\<close>

definition web_fetch ::
  "('c, 'v, 'p) tool_env \<Rightarrow> 'v tool_config \<Rightarrow> string \<Rightarrow> 'c option \<Rightarrow> exn + string" where
  "web_fetch env cfg target ctx =
     (case read_provider_settings cfg of
        Inl e \<Rightarrow> configuration_error env ctx e
      | Inr s \<Rightarrow>
          (case access_debug cfg of
             Inl e \<Rightarrow> Inl e
           | Inr dbg \<Rightarrow>
          (case log_info env ctx (''Begin Fetch: '' @ target) dbg of
             Some e \<Rightarrow> Inl e
           | None \<Rightarrow>
          (case construct_provider env (api_url s) (api_key s) (model s) of
             Inl e \<Rightarrow> Inl e
           | Inr grok_provider \<Rightarrow>
          (case provider_fetch env grok_provider target ctx of
             Inl e \<Rightarrow> Inl e
           | Inr results \<Rightarrow>
          (case access_debug_again cfg of
             Inl e \<Rightarrow> Inl e
           | Inr dbg' \<Rightarrow>
          (case log_info env ctx ''Fetch Finished!'' dbg' of
             Some e \<Rightarrow> Inl e
           | None \<Rightarrow> Inr results)))))))"

subsubsection \<open>JSON values and HTTP responses\<close>

text \<open>
  A decoded JSON value, as \<^verbatim>\<open>response.json()\<close> gives it and \<^verbatim>\<open>json.dumps\<close> takes
  it: a Python dictionary is the list of its items in insertion order, with distinct
  keys.
\<close>

datatype json =
    JNull
  | JBool bool
  | JNum real
  | JStr string
  | JArr "json list"
  | JObj "(string \<times> json) list"

text \<open>
  The response of \<^verbatim>\<open>client.get\<close>: \<open>json_body\<close> is \<open>None\<close> where
  \<^verbatim>\<open>response.json()\<close> raises, and \<open>response_text\<close> is \<^verbatim>\<open>response.text\<close>.
\<close>

record http_response =
  status_code :: nat
  response_text :: string
  json_body :: "json option"

record test_result =
  status :: string
  message :: string
  response_time_ms :: real
  available_models :: "json list option"

text \<open>The three status marks, U+2705, U+26A0 U+FE0F and U+274C, in UTF-8.\<close>

definition check_mark :: string where
  "check_mark = [CHR 0xE2, CHR 0x9C, CHR 0x85]"

definition warning_sign :: string where
  "warning_sign = [CHR 0xE2, CHR 0x9A, CHR 0xA0, CHR 0xEF, CHR 0xB8, CHR 0x8F]"

definition cross_mark :: string where
  "cross_mark = [CHR 0xE2, CHR 0x9D, CHR 0x8C]"

text \<open>
  \<^verbatim>\<open>round(x, 2)\<close> on the elapsed time, taken over the reals: two decimals, a tie
  going to the even neighbour.
\<close>

definition round_half_even :: "real \<Rightarrow> int" where
  "round_half_even x =
     (let n = \<lfloor>x\<rfloor>; d = x - of_int n
      in if d < 1 / 2 then n else if 1 / 2 < d then n + 1 else if even n then n else n + 1)"

definition py_round2 :: "real \<Rightarrow> real" where
  "py_round2 x = of_int (round_half_even (x * 100)) / 100"

text \<open>\<^verbatim>\<open>api_url.rstrip('/')\<close>.\<close>

definition rstrip_slash :: "string \<Rightarrow> string" where
  "rstrip_slash s = rev (dropWhile (\<lambda>c. c = CHR ''/'') (rev s))"

text \<open>
  The loop that collects the model ids: an element that is a dictionary with a key
  \<^verbatim>\<open>id\<close> contributes the value under that key, any other element nothing.
\<close>

fun collect_model_names :: "json list \<Rightarrow> json list \<Rightarrow> json list" where
  "collect_model_names [] model_names = model_names"
| "collect_model_names (JObj kv # ms) model_names =
     (case map_of kv ''id'' of
        Some v \<Rightarrow> collect_model_names ms (model_names @ [v])
      | None \<Rightarrow> collect_model_names ms model_names)"
| "collect_model_names (m # ms) model_names = collect_model_names ms model_names"

text \<open>
  The inner \<^verbatim>\<open>try\<close> of the 200 branch. Only a dictionary whose \<^verbatim>\<open>data\<close> is a list
  changes the result; for any other body the test \<^verbatim>\<open>"data" in models_data\<close> is false
  or an exception is raised before any assignment, and the bare \<^verbatim>\<open>except\<close> passes.
\<close>

definition parse_model_list :: "json option \<Rightarrow> test_result \<Rightarrow> test_result" where
  "parse_model_list body tr =
     (case body of
        Some (JObj kv) \<Rightarrow>
          (case map_of kv ''data'' of
             Some (JArr ms) \<Rightarrow>
               (let tr = tr\<lparr>message := message tr @ '', total '' @ str_nat (length ms) @ '' models''\<rparr>;
                    model_names = collect_model_names ms []
                in if model_names \<noteq> [] then tr\<lparr>available_models := Some model_names\<rparr> else tr)
           | _ \<Rightarrow> tr)
      | _ \<Rightarrow> tr)"

text \<open>The four \<^verbatim>\<open>except\<close> clauses of the outer \<^verbatim>\<open>try\<close>, in their order.\<close>

fun connection_error :: "exn \<Rightarrow> test_result \<Rightarrow> test_result" where
  "connection_error (TimeoutException m) tr =
     tr\<lparr>status := cross_mark @ '' Connection timeout'',
        message := ''Request timeout (10 seconds), please check network connection or API URL''\<rparr>"
| "connection_error (RequestError m) tr =
     tr\<lparr>status := cross_mark @ '' Connection failed'', message := ''Network error: '' @ m\<rparr>"
| "connection_error e tr =
     (if is_ValueError e
      then tr\<lparr>status := cross_mark @ '' Configuration error'', message := exn_message e\<rparr>
      else tr\<lparr>status := cross_mark @ '' Test failed'',
              message := ''Unknown error: '' @ exn_message e\<rparr>)"

text \<open>
  The connection test of \<^verbatim>\<open>get_config_info\<close>. \<open>http_get target headers\<close> is the request
  through \<^verbatim>\<open>httpx\<close>, the response or the exception raised; \<open>start_time\<close> and
  \<open>end_time\<close> are the two readings of \<^verbatim>\<open>time.time()\<close>, in seconds, taken as reals.
  In the branch of a status other than 200, \<open>take 100\<close> counts the elements of the
  modelled text; it is \<^verbatim>\<open>response.text[:100]\<close> when the first hundred characters are
  ASCII.
\<close>

definition connection_test ::
  "string config_access \<Rightarrow> (string \<Rightarrow> (string \<times> string) list \<Rightarrow> exn + http_response)
     \<Rightarrow> real \<Rightarrow> real \<Rightarrow> test_result" where
  "connection_test cfg http_get start_time end_time =
     (let test_result = \<lparr>status = ''Not tested'', message = [], response_time_ms = 0,
                          available_models = None\<rparr>
      in case access_api_url cfg of
           Inl e \<Rightarrow> connection_error e test_result
         | Inr u \<Rightarrow>
             (case access_api_key cfg of
                Inl e \<Rightarrow> connection_error e test_result
              | Inr k \<Rightarrow>
                  (case http_get (rstrip_slash u @ ''/models'')
                          [(''Authorization'', ''Bearer '' @ k),
                           (''Content-Type'', ''application/json'')] of
                     Inl e \<Rightarrow> connection_error e test_result
                   | Inr response \<Rightarrow>
                       (let response_time = (end_time - start_time) * 1000
                        in if status_code response = 200
                           then parse_model_list (json_body response)
                                  (test_result
                                     \<lparr>status := check_mark @ '' Connection successful'',
                                      message := ''Successfully retrieved model list (HTTP ''
                                         @ str_nat (status_code response) @ '')'',
                                      response_time_ms := py_round2 response_time\<rparr>)
                           else test_result
                                  \<lparr>status := warning_sign @ '' Connection abnormal'',
                                   message := ''HTTP '' @ str_nat (status_code response) @ '': ''
                                      @ take 100 (response_text response),
                                   response_time_ms := py_round2 response_time\<rparr>))))"

text \<open>
  An element of the \<^verbatim>\<open>data\<close> array that is an object carrying the string \<open>i\<close> under
  the key \<^verbatim>\<open>id\<close>.
\<close>

definition carries_id :: "json \<Rightarrow> string \<Rightarrow> bool" where
  "carries_id m i = (\<exists>fields. m = JObj fields \<and> map_of fields ''id'' = Some (JStr i))"

definition double_quote :: string where
  "double_quote = [CHR 0x22]"

text \<open>The dictionary \<^verbatim>\<open>test_result\<close> as a JSON value.\<close>

definition test_result_json :: "test_result \<Rightarrow> json" where
  "test_result_json tr =
     JObj ([(''status'', JStr (status tr)), (''message'', JStr (message tr)),
            (''response_time_ms'', JNum (response_time_ms tr))]
           @ (case available_models tr of
                None \<Rightarrow> []
              | Some ns \<Rightarrow> [(''available_models'', JArr ns)]))"

text \<open>
  \<^verbatim>\<open>get_config_info\<close>. \<open>config_info\<close> is the dictionary that
  \<^verbatim>\<open>config.get_config_info()\<close> has returned, and \<open>dumps\<close> is \<^verbatim>\<open>json.dumps\<close> with
  the arguments of the source.
\<close>

definition get_config_info ::
  "(json \<Rightarrow> string) \<Rightarrow> (string \<times> json) list \<Rightarrow> string config_access
     \<Rightarrow> (string \<Rightarrow> (string \<times> string) list \<Rightarrow> exn + http_response) \<Rightarrow> real \<Rightarrow> real
     \<Rightarrow> exn + string" where
  "get_config_info dumps config_info cfg http_get start_time end_time =
     Inr (dumps (JObj (AList.update ''connection_test''
            (test_result_json (connection_test cfg http_get start_time end_time)) config_info)))"

text \<open>
  \<^verbatim>\<open>switch_model\<close>. The configuration object is a state \<open>c\<close>; \<open>grok_model\<close>,
  \<open>set_model\<close> and \<open>config_file\<close> are its property and methods, each returning or
  raising, \<open>set_model\<close> with the state it leaves. The result is the returned string and
  the state after the call.
\<close>

definition switch_failed :: "(json \<Rightarrow> string) \<Rightarrow> exn \<Rightarrow> string" where
  "switch_failed dumps e =
     (if is_ValueError e
      then dumps (JObj [(''status'', JStr (cross_mark @ '' Failed'')),
                        (''message'', JStr (''Failed to switch model: '' @ exn_message e))])
      else dumps (JObj [(''status'', JStr (cross_mark @ '' Failed'')),
                        (''message'', JStr (''Unknown error: '' @ exn_message e))]))"

definition switch_model ::
  "(json \<Rightarrow> string) \<Rightarrow> ('c \<Rightarrow> exn + string) \<Rightarrow> ('c \<Rightarrow> string \<Rightarrow> exn option \<times> 'c)
     \<Rightarrow> ('c \<Rightarrow> exn + string) \<Rightarrow> 'c \<Rightarrow> string \<Rightarrow> (exn + string) \<times> 'c" where
  "switch_model dumps grok_model set_model config_file c new_model =
     (case grok_model c of
        Inl e \<Rightarrow> (Inr (switch_failed dumps e), c)
      | Inr previous_model \<Rightarrow>
          (case set_model c new_model of
             (Some e, c') \<Rightarrow> (Inr (switch_failed dumps e), c')
           | (None, c') \<Rightarrow>
               (case grok_model c' of
                  Inl e \<Rightarrow> (Inr (switch_failed dumps e), c')
                | Inr current_model \<Rightarrow>
                    (case config_file c' of
                       Inl e \<Rightarrow> (Inr (switch_failed dumps e), c')
                     | Inr file \<Rightarrow>
                         (Inr (dumps (JObj
                            [(''status'', JStr (check_mark @ '' Success'')),
                             (''previous_model'', JStr previous_model),
                             (''current_model'', JStr current_model),
                             (''message'', JStr (''Model switched from '' @ previous_model
                                @ '' to '' @ current_model)),
                             (''config_file'', JStr file)])), c')))))"

subsection \<open>The provider integration layer\<close>

text \<open>
  The class \<^verbatim>\<open>GrokSearchProvider\<close> (\<^verbatim>\<open>grok_search/providers/grok.py\<close>) is imported
  by the server and by the tests; its text is not available. Its two methods are
  modelled below from the design description alone. What the description leaves open
  is a parameter: the two prompt texts, the wording of the result-count instruction,
  the HTTP client, the JSON decoder and the cleanup of wrapping artifacts.
\<close>

text \<open>
  Modelled from the spec: the error taxonomy of the provider layer (section 7), whose
  classes are declared in the missing provider module.
\<close>

datatype error =
    MissingConfigError string
  | TransportError string
  | UpstreamFormatError string
  | InvalidInputError string

text \<open>
  Modelled from the spec: the chat-completion request that the missing provider sends
  (section 6): a POST to \<open>{api_url}/chat/completions\<close> with bearer authentication and
  the body \<open>{model, messages: [system, user], stream: false}\<close>.
\<close>

record chat_request =
  endpoint :: string
  bearer :: string
  request_model :: string
  system_message :: string
  user_message :: string
  stream :: bool

text \<open>
  Modelled from the spec: what the missing provider sees of the upstream, a network
  failure or an HTTP status with the assistant message content (for a status other
  than 200, the message of the response).
\<close>

datatype http_reply =
    NetworkFailure string
  | Reply nat string

text \<open>
  Modelled from the spec: the collaborators of the missing provider that the
  description names without defining them. \<open>post\<close> is the HTTP call, \<open>decode\<close> the
  strict JSON decoder, \<open>strip_wrapping\<close> the removal of code-fence markers and of
  leading and trailing prose, \<open>count_instruction\<close> the sentence that states the
  requested bounds.
\<close>

record provider_env =
  search_prompt :: string
  fetch_prompt :: string
  count_instruction :: "int \<Rightarrow> int \<Rightarrow> string"
  post :: "chat_request \<Rightarrow> http_reply"
  decode :: "string \<Rightarrow> json option"
  strip_wrapping :: "string \<Rightarrow> string"

text \<open>
  Modelled from the spec: the validation of a search request by the missing provider
  (section 3): the query is not empty, \<open>min_results\<close> is at least 0 and \<open>max_results\<close>
  at least \<open>min_results\<close>.
\<close>

definition validate_search :: "string \<Rightarrow> int \<Rightarrow> int \<Rightarrow> error option" where
  "validate_search query min_results max_results =
     (if query = [] then Some (InvalidInputError ''empty query'')
      else if min_results < 0 \<or> max_results < min_results
      then Some (InvalidInputError ''invalid result bounds'')
      else None)"

text \<open>
  Modelled from the spec: the request of the missing method \<^verbatim>\<open>search\<close> (section 4.1):
  the user message is the query, then the platform hint when a platform is given, then
  the result-count instruction.
\<close>

definition search_request ::
  "provider_env \<Rightarrow> string GrokSearchProvider \<Rightarrow> string \<Rightarrow> string \<Rightarrow> int \<Rightarrow> int \<Rightarrow> chat_request" where
  "search_request env pc query platform min_results max_results =
     \<lparr>endpoint = api_url pc @ ''/chat/completions'',
      bearer = api_key pc,
      request_model = model pc,
      system_message = search_prompt env,
      user_message = query
         @ (if platform = [] then [] else ''\<newline>focus search on: '' @ platform)
         @ count_instruction env min_results max_results,
      stream = False\<rparr>"

text \<open>
  Modelled from the spec: when the missing method \<^verbatim>\<open>search\<close> keeps a decoded entry
  (sections 3 and 4.1): the entry is an object whose \<open>title\<close> and \<open>url\<close> are non-empty
  strings.
\<close>

definition valid_entry :: "json \<Rightarrow> bool" where
  "valid_entry e =
     (case e of
        JObj kv \<Rightarrow>
          (case map_of kv ''title'' of Some (JStr t) \<Rightarrow> t \<noteq> [] | _ \<Rightarrow> False)
          \<and> (case map_of kv ''url'' of Some (JStr u) \<Rightarrow> u \<noteq> [] | _ \<Rightarrow> False)
      | _ \<Rightarrow> False)"

text \<open>Modelled from the spec: a string field of an entry, for the missing method \<^verbatim>\<open>search\<close>.\<close>

definition string_field :: "(string \<times> json) list \<Rightarrow> string \<Rightarrow> string option" where
  "string_field kv key = (case map_of kv key of Some (JStr s) \<Rightarrow> Some s | _ \<Rightarrow> None)"

text \<open>
  Modelled from the spec: the mapping of a decoded entry into a \<^verbatim>\<open>SearchResult\<close> by the
  missing method \<^verbatim>\<open>search\<close> (section 4.1): an entry that is not valid is dropped; the
  snippet is the \<open>description\<close>, else the \<open>snippet\<close>, else the empty string.
\<close>

definition to_result :: "json \<Rightarrow> SearchResult option" where
  "to_result e =
     (case e of
        JObj kv \<Rightarrow>
          if valid_entry e
          then Some \<lparr>title = (case string_field kv ''title'' of Some t \<Rightarrow> t | None \<Rightarrow> []),
                     url = (case string_field kv ''url'' of Some u \<Rightarrow> u | None \<Rightarrow> []),
                     snippet = (case string_field kv ''description'' of
                                  Some s \<Rightarrow> s
                                | None \<Rightarrow> (case string_field kv ''snippet'' of
                                             Some s \<Rightarrow> s | None \<Rightarrow> [])),
                     source = string_field kv ''source'',
                     published_date = string_field kv ''published_date''\<rparr>
          else None
      | _ \<Rightarrow> None)"

text \<open>
  Modelled from the spec: the strict decode of the missing method \<^verbatim>\<open>search\<close>
  (section 4.1): the text decodes, and to a JSON array.
\<close>

definition decode_array :: "provider_env \<Rightarrow> string \<Rightarrow> json list option" where
  "decode_array env content = (case decode env content of Some (JArr es) \<Rightarrow> Some es | _ \<Rightarrow> None)"

text \<open>
  Modelled from the spec: the decoding step of the missing method \<^verbatim>\<open>search\<close>
  (section 4.1): the strict decode, one retry on the text with the wrapping removed,
  then \<^verbatim>\<open>UpstreamFormatError\<close>.
\<close>

definition decode_entries :: "provider_env \<Rightarrow> string \<Rightarrow> error + json list" where
  "decode_entries env content =
     (case decode_array env content of
        Some es \<Rightarrow> Inr es
      | None \<Rightarrow>
          (case decode_array env (strip_wrapping env content) of
             Some es \<Rightarrow> Inr es
           | None \<Rightarrow> Inl (UpstreamFormatError ''response is not a JSON array'')))"

text \<open>
  Modelled from the spec: the missing method \<^verbatim>\<open>search\<close> (section 4.1). The result is
  the list of items of the JSON array it returns, or the error its returned string
  describes, together with the requests it has sent. The entries are cut to
  \<open>max_results\<close> in the order given, then mapped, the invalid ones dropped; fewer than
  \<open>min_results\<close> entries are returned as they are.
\<close>

definition search ::
  "provider_env \<Rightarrow> string GrokSearchProvider \<Rightarrow> string \<Rightarrow> string \<Rightarrow> int \<Rightarrow> int
     \<Rightarrow> (error + SearchResult list) \<times> chat_request list" where
  "search env pc query platform min_results max_results =
     (case validate_search query min_results max_results of
        Some e \<Rightarrow> (Inl e, [])
      | None \<Rightarrow>
          (let request = search_request env pc query platform min_results max_results
           in case post env request of
                NetworkFailure m \<Rightarrow> (Inl (TransportError m), [request])
              | Reply code content \<Rightarrow>
                  if code \<noteq> 200
                  then (Inl (TransportError (''HTTP '' @ str_nat code @ '': '' @ content)), [request])
                  else (case decode_entries env content of
                          Inl e \<Rightarrow> (Inl e, [request])
                        | Inr es \<Rightarrow>
                            (Inr (List.map_filter to_result (take (nat max_results) es)),
                             [request]))))"

text \<open>
  Modelled from the spec: the test of the missing method \<^verbatim>\<open>fetch\<close> on its argument
  (section 4.1): the text starts with \<open>http://\<close> or \<open>https://\<close>.
\<close>

definition http_url :: "string \<Rightarrow> bool" where
  "http_url t = (take 7 t = ''http://'' \<or> take 8 t = ''https://'')"

text \<open>
  Modelled from the spec: the missing method \<^verbatim>\<open>fetch\<close> (section 4.1): it refuses an
  argument that is not an HTTP address before any request, sends the fetch prompt with
  the address as user content, and passes the answer through when it is not empty.
\<close>

definition fetch ::
  "provider_env \<Rightarrow> string GrokSearchProvider \<Rightarrow> string \<Rightarrow> (error + string) \<times> chat_request list" where
  "fetch env pc target =
     (if \<not> http_url target
      then (Inl (InvalidInputError (''URL must start with http:// or https://: '' @ target)), [])
      else
        (let request = \<lparr>endpoint = api_url pc @ ''/chat/completions'', bearer = api_key pc,
                         request_model = model pc, system_message = fetch_prompt env,
                         user_message = target, stream = False\<rparr>
         in case post env request of
              NetworkFailure m \<Rightarrow> (Inl (TransportError m), [request])
            | Reply code content \<Rightarrow>
                if code \<noteq> 200
                then (Inl (TransportError (''HTTP '' @ str_nat code @ '': '' @ content)), [request])
                else if content = [] then (Inl (UpstreamFormatError ''empty response''), [request])
                else (Inr content, [request])))"

subsection \<open>Properties of the formatter\<close>

lemma result_parts_described:
  "result_parts i r = (''## Result '' @ str_nat i @ '': '' @ title r) # field_lines r"
  by (simp add: result_parts_def field_lines_def truthy_def truthy_opt_def opt_text_def Let_def
      split: option.splits)

lemma block_described:
  "join ''\<newline>'' (result_parts i r) = described_block i r"
  by (simp only: result_parts_described described_block_def)

lemma described_blocks_shift:
  "map (\<lambda>k. described_block (i + k) ((r # rs) ! k)) [0..<length (r # rs)]
     = described_block i r # map (\<lambda>k. described_block (Suc i + k) (rs ! k)) [0..<length rs]"
  by (simp add: map_upt_Suc del: upt_Suc)

lemma format_loop_append:
  "format_loop i rs acc = acc @ map (\<lambda>k. described_block (i + k) (rs ! k)) [0..<length rs]"
proof (induction rs arbitrary: i acc)
  case Nil
  then show ?case by simp
next
  case (Cons r rs)
  have "format_loop i (r # rs) acc = format_loop (Suc i) rs (acc @ [described_block i r])"
    by (simp only: format_loop.simps block_described)
  also have "\<dots> = (acc @ [described_block i r])
      @ map (\<lambda>k. described_block (Suc i + k) (rs ! k)) [0..<length rs]"
    by (rule Cons.IH)
  also have "\<dots> = acc @ map (\<lambda>k. described_block (i + k) ((r # rs) ! k)) [0..<length (r # rs)]"
    by (simp only: described_blocks_shift append_assoc append_Cons append_Nil)
  finally show ?case .
qed

text \<open>
  Claim C10. The formatter returns exactly \<open>No results found.\<close> for the empty list. For a
  non-empty list of \<open>n\<close> results it joins, with the separator of two newlines, three dashes
  and two newlines, one block per result in input order; the block of the result at
  position \<open>k\<close> (from 0) is headed \<open>## Result k+1: title\<close> and carries the URL, Summary,
  Source and Published lines of exactly the non-empty fields.
\<close>

theorem format_search_results_blocks:
  "format_search_results [] = ''No results found.'' \<and>
   (rs \<noteq> [] \<longrightarrow>
      format_search_results rs =
        join ''\<newline>\<newline>---\<newline>\<newline>''
          (map (\<lambda>k. described_block (Suc k) (rs ! k)) [0..<length rs]))"
  by (simp add: format_search_results_def format_loop_append block_separator_def)

theorem format_search_results_blocks_witness:
  "format_search_results
     [\<lparr>title = ''A'', url = ''http://a'', snippet = '''', source = None, published_date = Some ''2024''\<rparr>,
      \<lparr>title = ''B'', url = '''', snippet = ''s'', source = Some ''web'', published_date = Some ''''\<rparr>]
   = ''## Result 1: A\<newline>**URL:** http://a\<newline>**Published:** 2024\<newline>\<newline>---\<newline>\<newline>## Result 2: B\<newline>**Summary:** s\<newline>**Source:** web''"
  using format_search_results_blocks
    [of "[\<lparr>title = ''A'', url = ''http://a'', snippet = '''', source = None, published_date = Some ''2024''\<rparr>,
          \<lparr>title = ''B'', url = '''', snippet = ''s'', source = Some ''web'', published_date = Some ''''\<rparr>]"]
  by (simp add: described_block_def field_lines_def digit_char_def str_nat.simps upt_conv_Cons del: upt_Suc)

subsection \<open>Properties of the configuration\<close>

lemma truthy_toml_iff:
  "(\<not> truthy_toml v) =
     (v \<in> {TStr [], TInt 0, TFloat 0, TBool False, TArray [], TTable []})"
  by (cases v) auto

lemma grok_api_url_table:
  "section_of d ''grok'' = TTable kv \<Longrightarrow>
   grok_api_url d = (case map_of kv ''api_url'' of
                       None \<Rightarrow> Inl (ValueError ''grok.api_url not configured'')
                     | Some v \<Rightarrow> if truthy_toml v then Inr v
                                else Inl (ValueError ''grok.api_url not configured''))"
  by (simp add: grok_api_url_def dict_get_def split: option.splits)

lemma grok_api_key_table:
  "section_of d ''grok'' = TTable kv \<Longrightarrow>
   grok_api_key d = (case map_of kv ''api_key'' of
                       None \<Rightarrow> Inl (ValueError ''grok.api_key not configured'')
                     | Some v \<Rightarrow> if truthy_toml v then Inr v
                                else Inl (ValueError ''grok.api_key not configured''))"
  by (simp add: grok_api_key_def dict_get_def split: option.splits)

lemma configuration_error_returned:
  "is_ValueError e \<Longrightarrow>
   ctx = None \<or> (\<exists>c. ctx = Some c \<and> report_progress env c (exn_message e) = None) \<Longrightarrow>
   configuration_error env ctx e = Inr (''Configuration error: '' @ exn_message e)"
  by (auto simp: configuration_error_def)

text \<open>
  Claim C6, as amended. Where the \<open>grok\<close> entry of the configuration is a table (the
  empty one when the entry is absent), reading \<open>api_url\<close> or \<open>api_key\<close> raises the
  \<^verbatim>\<open>ValueError\<close> that names the setting exactly when the key is absent or its value
  is the empty string, zero, false, the empty array or the empty table; it raises
  nothing else and otherwise returns the value. When a configuration read of
  \<^verbatim>\<open>web_search\<close> or \<^verbatim>\<open>web_fetch\<close> raises a \<^verbatim>\<open>ValueError\<close>, and no context is given
  or its \<^verbatim>\<open>report_progress\<close> returns, the tool returns the string
  \<open>Configuration error:\<close> followed by the message. The construction of the singleton
  succeeds whatever the settings are: nothing fails at start-up.
\<close>

theorem missing_setting_reported_per_call:
  assumes grok: "section_of d ''grok'' = TTable kv"
  shows "((grok_api_url d = Inl (ValueError ''grok.api_url not configured''))
            = (map_of kv ''api_url'' \<in> {None, Some (TStr []), Some (TInt 0), Some (TFloat 0),
                 Some (TBool False), Some (TArray []), Some (TTable [])}))
       \<and> (\<forall>e. grok_api_url d = Inl e \<longrightarrow> e = ValueError ''grok.api_url not configured'')
       \<and> (\<forall>v. grok_api_url d = Inr v \<longrightarrow> map_of kv ''api_url'' = Some v)
       \<and> ((grok_api_key d = Inl (ValueError ''grok.api_key not configured''))
            = (map_of kv ''api_key'' \<in> {None, Some (TStr []), Some (TInt 0), Some (TFloat 0),
                 Some (TBool False), Some (TArray []), Some (TTable [])}))
       \<and> (\<forall>e. grok_api_key d = Inl e \<longrightarrow> e = ValueError ''grok.api_key not configured'')
       \<and> (\<forall>v. grok_api_key d = Inr v \<longrightarrow> map_of kv ''api_key'' = Some v)
       \<and> (\<forall>e. read_provider_settings cfg = Inl e \<and> is_ValueError e
              \<and> (ctx = None \<or> (\<exists>c. ctx = Some c \<and> report_progress env c (exn_message e) = None))
            \<longrightarrow> web_search env cfg q p lo hi ctx = Inr (''Configuration error: '' @ exn_message e)
              \<and> web_fetch env cfg t ctx = Inr (''Configuration error: '' @ exn_message e))
       \<and> fst (Config_new None path True (Inr d)) = Inr d"
proof -
  note u = grok_api_url_table [OF grok] and k = grok_api_key_table [OF grok]
  have a: "(grok_api_url d = Inl (ValueError ''grok.api_url not configured''))
            = (map_of kv ''api_url'' \<in> {None, Some (TStr []), Some (TInt 0), Some (TFloat 0),
                 Some (TBool False), Some (TArray []), Some (TTable [])})"
  proof (cases "map_of kv ''api_url''")
    case None
    then show ?thesis by (simp add: u)
  next
    case (Some v)
    then show ?thesis using truthy_toml_iff [of v] by (auto simp: u)
  qed
  have b: "\<forall>e. grok_api_url d = Inl e \<longrightarrow> e = ValueError ''grok.api_url not configured''"
    by (simp add: u split: option.splits)
  have b': "\<forall>v. grok_api_url d = Inr v \<longrightarrow> map_of kv ''api_url'' = Some v"
    by (simp add: u split: option.splits)
  have c: "(grok_api_key d = Inl (ValueError ''grok.api_key not configured''))
            = (map_of kv ''api_key'' \<in> {None, Some (TStr []), Some (TInt 0), Some (TFloat 0),
                 Some (TBool False), Some (TArray []), Some (TTable [])})"
  proof (cases "map_of kv ''api_key''")
    case None
    then show ?thesis by (simp add: k)
  next
    case (Some v)
    then show ?thesis using truthy_toml_iff [of v] by (auto simp: k)
  qed
  have d': "\<forall>e. grok_api_key d = Inl e \<longrightarrow> e = ValueError ''grok.api_key not configured''"
    by (simp add: k split: option.splits)
  have d'': "\<forall>v. grok_api_key d = Inr v \<longrightarrow> map_of kv ''api_key'' = Some v"
    by (simp add: k split: option.splits)
  have e: "\<forall>e. read_provider_settings cfg = Inl e \<and> is_ValueError e
              \<and> (ctx = None \<or> (\<exists>c. ctx = Some c \<and> report_progress env c (exn_message e) = None))
            \<longrightarrow> web_search env cfg q p lo hi ctx = Inr (''Configuration error: '' @ exn_message e)
              \<and> web_fetch env cfg t ctx = Inr (''Configuration error: '' @ exn_message e)"
    by (simp add: web_search_def web_fetch_def configuration_error_returned)
  have g: "fst (Config_new None path True (Inr d)) = Inr d"
    by (simp add: Config_new_def load_config_def)
  from a b b' c d' d'' e g show ?thesis by (intro conjI)
qed

theorem missing_setting_reported_per_call_witness:
  "grok_api_url [(''grok'', TTable [(''api_url'', TStr []), (''api_key'', TStr ''k'')])]
     = Inl (ValueError ''grok.api_url not configured'')
   \<and> grok_api_key [(''grok'', TTable [(''api_url'', TStr []), (''api_key'', TStr ''k'')])]
     = Inr (TStr ''k'')
   \<and> web_search
        \<lparr>report_progress = (\<lambda>c m. None), log_info = (\<lambda>ctx m dbg. None),
         construct_provider = (\<lambda>u k m. Inr (u, k, m)),
         provider_search = (\<lambda>pr q p lo hi ctx. Inr ''[]''),
         provider_fetch = (\<lambda>pr t ctx. Inr ''# page'')\<rparr>
        \<lparr>access_api_url = Inl (ValueError ''grok.api_url not configured''),
         access_api_key = Inr (TStr ''k''), access_model = Inr (TStr ''grok-4-fast''),
         access_debug = Inr (TBool False), access_debug_again = Inr (TBool False)\<rparr>
        ''mcp'' [] 3 10 (None :: unit option)
     = Inr ''Configuration error: grok.api_url not configured''
   \<and> fst (Config_new None ''config.toml'' True
        (Inr [(''grok'', TTable [(''api_url'', TStr []), (''api_key'', TStr ''k'')])]))
     = Inr [(''grok'', TTable [(''api_url'', TStr []), (''api_key'', TStr ''k'')])]"
proof -
  let ?d = "[(''grok'', TTable [(''api_url'', TStr []), (''api_key'', TStr ''k'')])]"
  let ?kv = "[(''api_url'', TStr []), (''api_key'', TStr ''k'')]"
  let ?env = "\<lparr>report_progress = (\<lambda>c m. None), log_info = (\<lambda>ctx m dbg. None),
         construct_provider = (\<lambda>u k m. Inr (u, k, m)),
         provider_search = (\<lambda>pr q p lo hi ctx. Inr ''[]''),
         provider_fetch = (\<lambda>pr t ctx. Inr ''# page'')\<rparr>
       :: (unit, toml, toml \<times> toml \<times> toml) tool_env"
  let ?cfg = "\<lparr>access_api_url = Inl (ValueError ''grok.api_url not configured''),
         access_api_key = Inr (TStr ''k''), access_model = Inr (TStr ''grok-4-fast''),
         access_debug = Inr (TBool False), access_debug_again = Inr (TBool False)\<rparr>"
  have h: "section_of ?d ''grok'' = TTable ?kv"
    by (simp add: section_of_def)
  note T = missing_setting_reported_per_call
    [OF h, where cfg = ?cfg and env = ?env and ctx = None and q = "''mcp''" and p = "[]"
       and lo = 3 and hi = 10 and t = "''https://example.com''" and path = "''config.toml''"]
  have r: "read_provider_settings ?cfg = Inl (ValueError ''grok.api_url not configured'')"
    by (simp add: read_provider_settings_def)
  have 1: "grok_api_url ?d = Inl (ValueError ''grok.api_url not configured'')"
    using T [THEN conjunct1] by simp
  have 2: "grok_api_key ?d = Inr (TStr ''k'')"
    by (simp add: grok_api_key_def dict_get_def section_of_def)
  have 3: "web_search ?env ?cfg ''mcp'' [] 3 10 None
      = Inr (''Configuration error: '' @ exn_message (ValueError ''grok.api_url not configured''))"
    using T [THEN conjunct2, THEN conjunct2, THEN conjunct2, THEN conjunct2, THEN conjunct2,
             THEN conjunct2, THEN conjunct1, rule_format,
             of "ValueError ''grok.api_url not configured''"] r
    by simp
  have 4: "fst (Config_new None ''config.toml'' True (Inr ?d)) = Inr ?d"
    using T by blast
  from 1 2 3 4 show ?thesis by simp
qed

text \<open>
  Claim C6 as first stated fails. With a \<open>grok\<close> entry that is a string the setting is
  absent, yet the read raises \<^verbatim>\<open>AttributeError\<close>, which is not a \<^verbatim>\<open>ValueError\<close> and
  leaves \<^verbatim>\<open>web_search\<close>; and a setting that is present as the number zero or as
  \<open>false\<close> raises the \<^verbatim>\<open>ValueError\<close> although it is not empty.
\<close>

theorem unset_setting_not_always_value_error:
  "grok_api_url [(''grok'', TStr ''x'')] = Inl (no_attribute_get (TStr ''x''))
   \<and> \<not> is_ValueError (no_attribute_get (TStr ''x''))
   \<and> web_search
        \<lparr>report_progress = (\<lambda>c m. None), log_info = (\<lambda>ctx m dbg. None),
         construct_provider = (\<lambda>u k m. Inr (u, k, m)),
         provider_search = (\<lambda>pr q p lo hi ctx. Inr ''[]''),
         provider_fetch = (\<lambda>pr t ctx. Inr ''# page'')\<rparr>
        \<lparr>access_api_url = Inl (no_attribute_get (TStr ''x'')),
         access_api_key = Inl (no_attribute_get (TStr ''x'')),
         access_model = Inr (TStr ''grok-4-fast''),
         access_debug = Inr (TBool False), access_debug_again = Inr (TBool False)\<rparr>
        ''mcp'' [] 3 10 (None :: unit option)
     = Inl (no_attribute_get (TStr ''x''))
   \<and> grok_api_url [(''grok'', TTable [(''api_url'', TInt 0)])]
     = Inl (ValueError ''grok.api_url not configured'')
   \<and> grok_api_url [(''grok'', TTable [(''api_url'', TBool False)])]
     = Inl (ValueError ''grok.api_url not configured'')"
  by (simp add: grok_api_url_def dict_get_def section_of_def no_attribute_get_def
      web_search_def read_provider_settings_def configuration_error_def)

lemma load_config_raises:
  "(\<exists>e. load_config path ex loaded = Inl e) = (\<not> ex \<or> (\<exists>e. loaded = Inl e))"
  by (simp add: load_config_def)

lemma Config_new_fst:
  "fst (Config_new None path ex loaded) = load_config path ex loaded"
  by (simp add: Config_new_def split: sum.splits)

text \<open>
  Claim C9, as amended. Constructing the singleton for the first time raises exactly
  when the configuration file is absent or when opening or parsing it raises: an absent
  file gives \<^verbatim>\<open>FileNotFoundError\<close> with the path in the message, a present file
  gives whatever the load gives. A configuration that loads is kept as it is, whatever
  its keys.
\<close>

theorem config_construction_raises_iff:
  "((\<exists>e. fst (Config_new None path ex loaded) = Inl e) = (\<not> ex \<or> (\<exists>e. loaded = Inl e)))
   \<and> (\<not> ex \<longrightarrow> Config_new None path ex loaded
          = (Inl (FileNotFoundError (''Configuration file not found: '' @ path)), Some []))
   \<and> (ex \<longrightarrow> fst (Config_new None path ex loaded) = loaded)
   \<and> Config_new None path True (Inr d) = (Inr d, Some d)"
  by (simp add: Config_new_fst load_config_raises) (simp add: Config_new_def load_config_def split: sum.splits)

theorem config_construction_raises_iff_witness:
  "fst (Config_new None ''config.toml'' False (Inr []))
     = Inl (FileNotFoundError ''Configuration file not found: config.toml'')
   \<and> fst (Config_new None ''config.toml'' True (Inr [(''grok'', TTable [])]))
     = Inr [(''grok'', TTable [])]"
  using config_construction_raises_iff [of "''config.toml''" False "Inr []" "[]"]
        config_construction_raises_iff [of "''config.toml''" True "Inr [(''grok'', TTable [])]" "[]"]
  by simp

text \<open>
  Claim C9 as first stated fails: with the file present, a file that is not valid TOML makes
  the construction raise, and a file that loads can still end the start-up when the
  logger module is imported, here because the \<open>logging\<close> entry is a string and not a
  table.
\<close>

theorem startup_fails_with_file_present:
  "fst (Config_new None ''config.toml'' True (Inl (TOMLDecodeError ''Invalid statement (at line 1, column 1)'')))
     = Inl (TOMLDecodeError ''Invalid statement (at line 1, column 1)'')
   \<and> fst (Config_new None ''config.toml'' True (Inr [(''logging'', TStr ''debug'')]))
     = Inr [(''logging'', TStr ''debug'')]
   \<and> logger_import [(''logging'', TStr ''debug'')] (\<lambda>dir. None) (\<lambda>lvl. Inr (20 :: nat)) None
     = Some (no_attribute_get (TStr ''debug''))"
  by (simp add: Config_new_def load_config_def logger_import_def log_dir_def dict_get_default_def
      dict_get_def section_of_def)

subsection \<open>Properties of the tool surface\<close>

text \<open>
  Claim C3 does not hold of the code. The calls of \<^verbatim>\<open>web_search\<close> and \<^verbatim>\<open>web_fetch\<close>
  after the \<^verbatim>\<open>try\<close> block stand in no handler, and neither does the progress call
  inside the handler: an exception of the provider call, here a network failure,
  leaves both tools, and so does an exception of \<^verbatim>\<open>ctx.report_progress\<close> while the
  configuration error is being reported.
\<close>

theorem unhandled_exception_leaves_web_search:
  "web_search
      \<lparr>report_progress = (\<lambda>c m. None), log_info = (\<lambda>ctx m dbg. None),
       construct_provider = (\<lambda>u k m. Inr (u, k, m)),
       provider_search = (\<lambda>pr q p lo hi ctx. Inl (RequestError ''All connection attempts failed'')),
       provider_fetch = (\<lambda>pr t ctx. Inl (RequestError ''All connection attempts failed''))\<rparr>
      \<lparr>access_api_url = Inr ''https://api.x.ai/v1'', access_api_key = Inr ''k'',
       access_model = Inr ''grok-4-fast'', access_debug = Inr ''false'',
       access_debug_again = Inr ''false''\<rparr>
      ''mcp'' [] 3 10 (None :: unit option)
     = Inl (RequestError ''All connection attempts failed'')
   \<and> web_fetch
      \<lparr>report_progress = (\<lambda>c m. None), log_info = (\<lambda>ctx m dbg. None),
       construct_provider = (\<lambda>u k m. Inr (u, k, m)),
       provider_search = (\<lambda>pr q p lo hi ctx. Inl (RequestError ''All connection attempts failed'')),
       provider_fetch = (\<lambda>pr t ctx. Inl (RequestError ''All connection attempts failed''))\<rparr>
      \<lparr>access_api_url = Inr ''https://api.x.ai/v1'', access_api_key = Inr ''k'',
       access_model = Inr ''grok-4-fast'', access_debug = Inr ''false'',
       access_debug_again = Inr ''false''\<rparr>
      ''https://example.com'' (None :: unit option)
     = Inl (RequestError ''All connection attempts failed'')
   \<and> web_search
      \<lparr>report_progress = (\<lambda>c m. Some (OtherException ''RuntimeError'' ''notification failed'')),
       log_info = (\<lambda>ctx m dbg. None),
       construct_provider = (\<lambda>u k m. Inr (u, k, m)),
       provider_search = (\<lambda>pr q p lo hi ctx. Inr ''[]''),
       provider_fetch = (\<lambda>pr t ctx. Inr ''# page'')\<rparr>
      \<lparr>access_api_url = Inl (ValueError ''grok.api_url not configured''), access_api_key = Inr ''k'',
       access_model = Inr ''grok-4-fast'', access_debug = Inr ''false'',
       access_debug_again = Inr ''false''\<rparr>
      ''mcp'' [] 3 10 (Some ())
     = Inl (OtherException ''RuntimeError'' ''notification failed'')"
  by (simp add: web_search_def web_fetch_def read_provider_settings_def configuration_error_def)

lemma collect_model_names_ids:
  "list_all2 carries_id ms ids \<Longrightarrow> collect_model_names ms acc = acc @ map JStr ids"
proof (induction ms arbitrary: ids acc)
  case Nil
  then show ?case by simp
next
  case (Cons m ms)
  then obtain i rest where ids: "ids = i # rest" and m: "carries_id m i"
    and rest: "list_all2 carries_id ms rest"
    by (auto simp: list_all2_Cons1)
  from m obtain fields where f: "m = JObj fields" "map_of fields ''id'' = Some (JStr i)"
    by (auto simp: carries_id_def)
  show ?case
    by (simp add: f ids Cons.IH [OF rest])
qed

lemma round_half_even_nonneg: "0 \<le> x \<Longrightarrow> 0 \<le> round_half_even x"
proof -
  assume "0 \<le> x"
  then have "0 \<le> \<lfloor>x\<rfloor>" by simp
  then show ?thesis by (simp add: round_half_even_def Let_def)
qed

lemma py_round2_nonneg: "0 \<le> x \<Longrightarrow> 0 \<le> py_round2 x"
  by (simp add: py_round2_def round_half_even_nonneg)

lemma parse_model_list_ids:
  assumes "map_of kv ''data'' = Some (JArr ms)" "list_all2 carries_id ms ids" "ms \<noteq> []"
  shows "parse_model_list (Some (JObj kv)) tr
     = tr\<lparr>message := message tr @ '', total '' @ str_nat (length ms) @ '' models'',
          available_models := Some (map JStr ids)\<rparr>"
proof -
  from assms(2,3) have "ids \<noteq> []" by auto
  with assms show ?thesis
    by (simp add: parse_model_list_def collect_model_names_ids [where acc = "[]", simplified] Let_def)
qed

lemma empty_model_list_omitted:
  "map_of kv ''data'' = Some (JArr []) \<Longrightarrow>
   available_models (parse_model_list (Some (JObj kv)) tr) = available_models tr"
  by (simp add: parse_model_list_def)

text \<open>
  Claim C8, as amended. When the configuration reads succeed and the models endpoint
  answers 200 with a dictionary whose \<^verbatim>\<open>data\<close> is a non-empty array of objects that
  carry the ids \<open>ids\<close>, the connection test reports success, the number of models,
  \<^verbatim>\<open>available_models\<close> equal to exactly those ids in their order, a non-empty list,
  and the elapsed time in milliseconds rounded to two decimals, which is not negative
  when the second clock reading is not before the first. \<^verbatim>\<open>get_config_info\<close> returns
  the configuration dictionary with this result under \<^verbatim>\<open>connection_test\<close>.
\<close>

theorem model_list_reported:
  assumes "access_api_url cfg = Inr u" and "access_api_key cfg = Inr k"
    and "http_get (rstrip_slash u @ ''/models'')
           [(''Authorization'', ''Bearer '' @ k), (''Content-Type'', ''application/json'')]
         = Inr response"
    and "status_code response = 200"
    and "json_body response = Some (JObj kv)"
    and "map_of kv ''data'' = Some (JArr ms)"
    and "ms \<noteq> []"
    and "list_all2 carries_id ms ids"
    and "start_time \<le> end_time"
  shows "connection_test cfg http_get start_time end_time
           = \<lparr>status = check_mark @ '' Connection successful'',
              message = ''Successfully retrieved model list (HTTP 200), total ''
                 @ str_nat (length ms) @ '' models'',
              response_time_ms = py_round2 ((end_time - start_time) * 1000),
              available_models = Some (map JStr ids)\<rparr>
       \<and> 0 \<le> response_time_ms (connection_test cfg http_get start_time end_time)
       \<and> ids \<noteq> []
       \<and> get_config_info dumps info cfg http_get start_time end_time
           = Inr (dumps (JObj (AList.update ''connection_test''
               (JObj [(''status'', JStr (check_mark @ '' Connection successful'')),
                      (''message'', JStr (''Successfully retrieved model list (HTTP 200), total ''
                         @ str_nat (length ms) @ '' models'')),
                      (''response_time_ms'', JNum (py_round2 ((end_time - start_time) * 1000))),
                      (''available_models'', JArr (map JStr ids))]) info)))"
proof -
  have s200: "str_nat 200 = ''200''"
    by (simp add: str_nat.simps digit_char_def)
  have ct: "connection_test cfg http_get start_time end_time
           = \<lparr>status = check_mark @ '' Connection successful'',
              message = ''Successfully retrieved model list (HTTP 200), total ''
                 @ str_nat (length ms) @ '' models'',
              response_time_ms = py_round2 ((end_time - start_time) * 1000),
              available_models = Some (map JStr ids)\<rparr>"
    using assms(1-5)
    by (simp add: connection_test_def Let_def parse_model_list_ids [OF assms(6) assms(8) assms(7)] s200)
  have nn: "0 \<le> py_round2 ((end_time - start_time) * 1000)"
    using assms(9) by (intro py_round2_nonneg) simp
  from assms(7,8) have ne: "ids \<noteq> []" by auto
  show ?thesis
    unfolding get_config_info_def ct test_result_json_def
    using nn ne by simp
qed

theorem model_list_reported_witness:
  "connection_test
     \<lparr>access_api_url = Inr ''https://api.x.ai/v1/'', access_api_key = Inr ''k'',
      access_model = Inr ''grok-4-fast'', access_debug = Inr ''false''\<rparr>
     (\<lambda>target headers. Inr \<lparr>status_code = 200, response_text = [],
        json_body = Some (JObj [(''object'', JStr ''list''),
          (''data'', JArr [JObj [(''id'', JStr ''grok-4''), (''object'', JStr ''model'')],
                           JObj [(''id'', JStr ''grok-3'')]])])\<rparr>)
     10 (41 / 4)
   = \<lparr>status = check_mark @ '' Connection successful'',
      message = ''Successfully retrieved model list (HTTP 200), total 2 models'',
      response_time_ms = 250,
      available_models = Some [JStr ''grok-4'', JStr ''grok-3'']\<rparr>"
proof -
  have ids: "list_all2 carries_id
      [JObj [(''id'', JStr ''grok-4''), (''object'', JStr ''model'')], JObj [(''id'', JStr ''grok-3'')]]
      [''grok-4'', ''grok-3'']"
    by (simp add: carries_id_def)
  have r: "py_round2 ((41 / 4 - 10) * 1000) = 250"
    by (simp add: py_round2_def round_half_even_def Let_def)
  have n: "str_nat (length [JObj [(''id'', JStr ''grok-4''), (''object'', JStr ''model'')],
      JObj [(''id'', JStr ''grok-3'')]]) = ''2''"
    by (simp add: str_nat.simps digit_char_def)
  note T = model_list_reported
    [where cfg = "\<lparr>access_api_url = Inr ''https://api.x.ai/v1/'', access_api_key = Inr ''k'',
        access_model = Inr ''grok-4-fast'', access_debug = Inr ''false''\<rparr>"
      and u = "''https://api.x.ai/v1/''" and k = "''k''"
      and http_get = "\<lambda>target headers. Inr \<lparr>status_code = 200, response_text = [],
        json_body = Some (JObj [(''object'', JStr ''list''),
          (''data'', JArr [JObj [(''id'', JStr ''grok-4''), (''object'', JStr ''model'')],
                           JObj [(''id'', JStr ''grok-3'')]])])\<rparr>"
      and response = "\<lparr>status_code = 200, response_text = [],
        json_body = Some (JObj [(''object'', JStr ''list''),
          (''data'', JArr [JObj [(''id'', JStr ''grok-4''), (''object'', JStr ''model'')],
                           JObj [(''id'', JStr ''grok-3'')]])])\<rparr>"
      and kv = "[(''object'', JStr ''list''),
          (''data'', JArr [JObj [(''id'', JStr ''grok-4''), (''object'', JStr ''model'')],
                           JObj [(''id'', JStr ''grok-3'')]])]"
      and ms = "[JObj [(''id'', JStr ''grok-4''), (''object'', JStr ''model'')], JObj [(''id'', JStr ''grok-3'')]]"
      and ids = "[''grok-4'', ''grok-3'']" and start_time = 10 and end_time = "41 / 4",
      OF _ _ _ _ _ _ _ ids, THEN conjunct1]
  have "connection_test
     \<lparr>access_api_url = Inr ''https://api.x.ai/v1/'', access_api_key = Inr ''k'',
      access_model = Inr ''grok-4-fast'', access_debug = Inr ''false''\<rparr>
     (\<lambda>target headers. Inr \<lparr>status_code = 200, response_text = [],
        json_body = Some (JObj [(''object'', JStr ''list''),
          (''data'', JArr [JObj [(''id'', JStr ''grok-4''), (''object'', JStr ''model'')],
                           JObj [(''id'', JStr ''grok-3'')]])])\<rparr>)
     10 (41 / 4)
   = \<lparr>status = check_mark @ '' Connection successful'',
      message = ''Successfully retrieved model list (HTTP 200), total ''
         @ str_nat (length [JObj [(''id'', JStr ''grok-4''), (''object'', JStr ''model'')],
             JObj [(''id'', JStr ''grok-3'')]]) @ '' models'',
      response_time_ms = py_round2 ((41 / 4 - 10) * 1000),
      available_models = Some (map JStr [''grok-4'', ''grok-3''])\<rparr>"
    by (rule T) simp_all
  then show ?thesis
    by (simp only: r n) simp
qed

text \<open>
  Claim C8 as first stated fails: for an empty \<^verbatim>\<open>data\<close> array the key
  \<^verbatim>\<open>available_models\<close> is not set at all, and a clock that steps back between the two
  readings gives a negative time.
\<close>

theorem empty_model_list_not_reported:
  "available_models (connection_test
     \<lparr>access_api_url = Inr ''https://api.x.ai/v1'', access_api_key = Inr ''k'',
      access_model = Inr ''grok-4-fast'', access_debug = Inr ''false''\<rparr>
     (\<lambda>target headers. Inr \<lparr>status_code = 200,
        response_text = ''{'' @ double_quote @ ''data'' @ double_quote @ '': []}'',
        json_body = Some (JObj [(''data'', JArr [])])\<rparr>)
     10 11) = None
   \<and> response_time_ms (connection_test
     \<lparr>access_api_url = Inr ''https://api.x.ai/v1'', access_api_key = Inr ''k'',
      access_model = Inr ''grok-4-fast'', access_debug = Inr ''false''\<rparr>
     (\<lambda>target headers. Inr \<lparr>status_code = 200,
        response_text = ''{'' @ double_quote @ ''data'' @ double_quote @ '': []}'',
        json_body = Some (JObj [(''data'', JArr [])])\<rparr>)
     11 10) = - 1000"
  by (simp add: connection_test_def parse_model_list_def Let_def py_round2_def round_half_even_def)

subsection \<open>Properties of the provider integration layer\<close>

lemma to_result_invalid: "\<not> valid_entry e \<Longrightarrow> to_result e = None"
  by (cases e) (simp_all add: to_result_def)

lemma to_result_valid:
  "valid_entry e \<Longrightarrow> \<exists>r. to_result e = Some r \<and> title r \<noteq> [] \<and> url r \<noteq> []"
proof (cases e)
  case (JObj kv)
  assume v: "valid_entry e"
  from v JObj obtain t where t: "map_of kv ''title'' = Some (JStr t)" "t \<noteq> []"
    by (auto simp: valid_entry_def split: option.splits json.splits)
  from v JObj obtain u where u: "map_of kv ''url'' = Some (JStr u)" "u \<noteq> []"
    by (auto simp: valid_entry_def split: option.splits json.splits)
  from v JObj t u show ?thesis
    by (simp add: to_result_def string_field_def)
qed (simp_all add: valid_entry_def)

lemma map_filter_valid:
  "List.map_filter to_result es = map (the \<circ> to_result) (filter valid_entry es)"
proof (induction es)
  case Nil
  then show ?case by simp
next
  case (Cons e es)
  show ?case
  proof (cases "valid_entry e")
    case True
    then obtain r where "to_result e = Some r"
      using to_result_valid by blast
    with True Cons show ?thesis by simp
  next
    case False
    with Cons show ?thesis by (simp add: to_result_invalid)
  qed
qed

lemma search_items_kept:
  assumes "fst (search env pc q p lo hi) = Inr items"
  shows "\<exists>es. items = List.map_filter to_result (take (nat hi) es)"
proof (cases "validate_search q lo hi")
  case (Some e)
  with assms show ?thesis by (simp add: search_def)
next
  case None
  show ?thesis
  proof (cases "post env (search_request env pc q p lo hi)")
    case (NetworkFailure m)
    with None assms show ?thesis by (simp add: search_def Let_def)
  next
    case (Reply code content)
    show ?thesis
    proof (cases "code = 200")
      case False
      with None Reply assms show ?thesis by (simp add: search_def Let_def)
    next
      case True
      show ?thesis
      proof (cases "decode_entries env content")
        case (Inl e)
        with None Reply True assms show ?thesis by (simp add: search_def Let_def)
      next
        case (Inr es)
        with None Reply True assms have "items = List.map_filter to_result (take (nat hi) es)"
          by (simp add: search_def Let_def)
        then show ?thesis by blast
      qed
    qed
  qed
qed

lemma kept_items_titled:
  "\<forall>r \<in> set (List.map_filter to_result es). title r \<noteq> [] \<and> url r \<noteq> []"
  by (auto simp: map_filter_valid dest: to_result_valid)

lemma kept_items_length: "length (List.map_filter to_result es) \<le> length es"
  by (simp add: map_filter_valid)

lemma map_filter_all_valid:
  "\<forall>e \<in> set es. valid_entry e \<Longrightarrow> List.map_filter to_result es = map (the \<circ> to_result) es"
proof (induction es)
  case Nil
  then show ?case by simp
next
  case (Cons e es)
  then have "valid_entry e" by simp
  then obtain r where "to_result e = Some r"
    using to_result_valid by blast
  with Cons show ?case by simp
qed

lemma search_decoded:
  assumes "validate_search q lo hi = None"
    and "post env (search_request env pc q p lo hi) = Reply 200 content"
    and "decode_entries env content = Inr es"
  shows "search env pc q p lo hi
       = (Inr (List.map_filter to_result (take (nat hi) es)), [search_request env pc q p lo hi])"
  using assms by (simp add: search_def Let_def)

text \<open>
  Claim C1. For a valid request whose upstream answer is HTTP 200 with a content that
  decodes, strictly or after the cleanup, to a JSON array of \<open>n\<close> valid entries, \<^verbatim>\<open>search\<close> returns the results of
  the first \<open>min n max_results\<close> entries, in the order of the array, after one single
  request: more entries than \<open>max_results\<close> are cut without re-ranking, and fewer
  than \<open>min_results\<close> are returned as they are, with no second request.
\<close>

theorem search_returns_first_max_results:
  assumes "q \<noteq> []" and "0 \<le> lo" and "lo \<le> hi"
    and "post env (search_request env pc q p lo hi) = Reply 200 content"
    and "decode_entries env content = Inr es"
    and "\<forall>e \<in> set es. valid_entry e"
  shows "\<exists>items. search env pc q p lo hi = (Inr items, [search_request env pc q p lo hi])
           \<and> items = map (the \<circ> to_result) (take (nat hi) es)
           \<and> length items = min (length es) (nat hi)
           \<and> (\<forall>i < length items. to_result (es ! i) = Some (items ! i))"
proof -
  have v: "validate_search q lo hi = None"
    using assms(1-3) by (simp add: validate_search_def)
  have tv: "\<forall>e \<in> set (take (nat hi) es). valid_entry e"
    using assms(6) by (meson in_set_takeD)
  let ?items = "map (the \<circ> to_result) (take (nat hi) es)"
  have s: "search env pc q p lo hi = (Inr ?items, [search_request env pc q p lo hi])"
    by (simp add: search_decoded [OF v assms(4) assms(5)] map_filter_all_valid [OF tv])
  have len: "length ?items = min (length es) (nat hi)" by simp
  have nth: "\<forall>i < length ?items. to_result (es ! i) = Some (?items ! i)"
  proof (intro allI impI)
    fix i assume i: "i < length ?items"
    then have "es ! i \<in> set es" by simp
    with assms(6) have "valid_entry (es ! i)" by blast
    then obtain r where "to_result (es ! i) = Some r"
      using to_result_valid by blast
    with i show "to_result (es ! i) = Some (?items ! i)" by simp
  qed
  from s len nth show ?thesis by blast
qed

theorem search_returns_first_max_results_witness:
  "search
     \<lparr>search_prompt = ''Return a JSON array.'', fetch_prompt = ''Return Markdown.'',
      count_instruction = (\<lambda>lo hi. []), post = (\<lambda>r. Reply 200 ''[three entries]''),
      decode = (\<lambda>s. Some (JArr
         [JObj [(''title'', JStr ''A''), (''url'', JStr ''http://a''), (''description'', JStr ''first'')],
          JObj [(''title'', JStr ''B''), (''url'', JStr ''http://b'')],
          JObj [(''title'', JStr ''C''), (''url'', JStr ''http://c'')]])),
      strip_wrapping = (\<lambda>s. s)\<rparr>
     \<lparr>api_url = ''https://api.x.ai/v1'', api_key = ''k'', model = ''grok-4-fast''\<rparr>
     ''mcp'' [] 1 2
   = (Inr [\<lparr>title = ''A'', url = ''http://a'', snippet = ''first'', source = None, published_date = None\<rparr>,
           \<lparr>title = ''B'', url = ''http://b'', snippet = [], source = None, published_date = None\<rparr>],
      [\<lparr>endpoint = ''https://api.x.ai/v1/chat/completions'', bearer = ''k'',
        request_model = ''grok-4-fast'', system_message = ''Return a JSON array.'',
        user_message = ''mcp'', stream = False\<rparr>])"
proof -
  let ?es = "[JObj [(''title'', JStr ''A''), (''url'', JStr ''http://a''), (''description'', JStr ''first'')],
          JObj [(''title'', JStr ''B''), (''url'', JStr ''http://b'')],
          JObj [(''title'', JStr ''C''), (''url'', JStr ''http://c'')]]"
  let ?env = "\<lparr>search_prompt = ''Return a JSON array.'', fetch_prompt = ''Return Markdown.'',
      count_instruction = (\<lambda>lo hi. []), post = (\<lambda>r. Reply 200 ''[three entries]''),
      decode = (\<lambda>s. Some (JArr ?es)), strip_wrapping = (\<lambda>s. s)\<rparr>"
  let ?pc = "\<lparr>api_url = ''https://api.x.ai/v1'', api_key = ''k'', model = ''grok-4-fast''\<rparr>"
  have valid: "\<forall>e \<in> set ?es. valid_entry e"
    by (simp add: valid_entry_def)
  have two: "take (nat 2) ?es = [JObj [(''title'', JStr ''A''), (''url'', JStr ''http://a''), (''description'', JStr ''first'')],
          JObj [(''title'', JStr ''B''), (''url'', JStr ''http://b'')]]"
    by (simp add: numeral_2_eq_2)
  have "\<exists>items. search ?env ?pc ''mcp'' [] 1 2 = (Inr items, [search_request ?env ?pc ''mcp'' [] 1 2])
           \<and> items = map (the \<circ> to_result) (take (nat 2) ?es)
           \<and> length items = min (length ?es) (nat 2)
           \<and> (\<forall>i < length items. to_result (?es ! i) = Some (items ! i))"
    by (rule search_returns_first_max_results [where content = "''[three entries]''"])
       (simp_all add: valid_entry_def decode_entries_def decode_array_def)
  then have "search ?env ?pc ''mcp'' [] 1 2
      = (Inr (map (the \<circ> to_result) (take (nat 2) ?es)), [search_request ?env ?pc ''mcp'' [] 1 2])"
    by blast
  then show ?thesis
    by (simp only: two) (simp add: to_result_def valid_entry_def string_field_def search_request_def)
qed

text \<open>
  Claim C2. Every item that \<^verbatim>\<open>search\<close> returns has a non-empty title and a
  non-empty url, and there are at most \<open>max_results\<close> of them. On a decoded array the
  result is a list of items, never an error: the entries without a title or a url are
  left out of it. An entry with neither description nor snippet gets the empty string as
  its snippet.
\<close>

theorem search_drops_entries_without_title_or_url:
  "(fst (search env pc q p lo hi) = Inr items \<longrightarrow>
      (\<forall>r \<in> set items. title r \<noteq> [] \<and> url r \<noteq> []) \<and> length items \<le> nat hi)
   \<and> (q \<noteq> [] \<and> 0 \<le> lo \<and> lo \<le> hi
        \<and> post env (search_request env pc q p lo hi) = Reply 200 content
        \<and> decode_entries env content = Inr es \<longrightarrow>
      fst (search env pc q p lo hi)
        = Inr (map (the \<circ> to_result) (filter valid_entry (take (nat hi) es))))
   \<and> (\<not> valid_entry e \<longrightarrow> to_result e = None)
   \<and> (valid_entry (JObj kv) \<and> string_field kv ''description'' = None
        \<and> string_field kv ''snippet'' = None \<longrightarrow>
      (\<exists>r. to_result (JObj kv) = Some r \<and> snippet r = []))"
proof -
  have a: "fst (search env pc q p lo hi) = Inr items \<longrightarrow>
      (\<forall>r \<in> set items. title r \<noteq> [] \<and> url r \<noteq> []) \<and> length items \<le> nat hi"
  proof
    assume "fst (search env pc q p lo hi) = Inr items"
    then obtain es where items: "items = List.map_filter to_result (take (nat hi) es)"
      using search_items_kept by blast
    have "\<forall>r \<in> set items. title r \<noteq> [] \<and> url r \<noteq> []"
      unfolding items by (rule kept_items_titled)
    moreover have "length items \<le> nat hi"
    proof -
      have "length items \<le> length (take (nat hi) es)"
        unfolding items by (rule kept_items_length)
      then show ?thesis by simp
    qed
    ultimately show "(\<forall>r \<in> set items. title r \<noteq> [] \<and> url r \<noteq> []) \<and> length items \<le> nat hi"
      by blast
  qed
  have b: "q \<noteq> [] \<and> 0 \<le> lo \<and> lo \<le> hi
        \<and> post env (search_request env pc q p lo hi) = Reply 200 content
        \<and> decode_entries env content = Inr es \<longrightarrow>
      fst (search env pc q p lo hi)
        = Inr (map (the \<circ> to_result) (filter valid_entry (take (nat hi) es)))"
    by (simp add: search_def Let_def validate_search_def map_filter_valid)
  have c: "\<not> valid_entry e \<longrightarrow> to_result e = None"
    by (simp add: to_result_invalid)
  have d: "valid_entry (JObj kv) \<and> string_field kv ''description'' = None
        \<and> string_field kv ''snippet'' = None \<longrightarrow>
      (\<exists>r. to_result (JObj kv) = Some r \<and> snippet r = [])"
  proof
    assume h: "valid_entry (JObj kv) \<and> string_field kv ''description'' = None
        \<and> string_field kv ''snippet'' = None"
    then show "\<exists>r. to_result (JObj kv) = Some r \<and> snippet r = []"
      by (simp add: to_result_def)
  qed
  from a b c d show ?thesis by (intro conjI)
qed

theorem search_drops_entries_without_title_or_url_witness:
  "fst (search
     \<lparr>search_prompt = ''Return a JSON array.'', fetch_prompt = ''Return Markdown.'',
      count_instruction = (\<lambda>lo hi. []), post = (\<lambda>r. Reply 200 ''[three entries]''),
      decode = (\<lambda>s. Some (JArr
         [JObj [(''title'', JStr ''A''), (''description'', JStr ''no url'')],
          JObj [(''title'', JStr ''B''), (''url'', JStr ''http://b''), (''description'', JNull)],
          JStr ''C''])),
      strip_wrapping = (\<lambda>s. s)\<rparr>
     \<lparr>api_url = ''https://api.x.ai/v1'', api_key = ''k'', model = ''grok-4-fast''\<rparr>
     ''mcp'' [] 3 10)
   = Inr [\<lparr>title = ''B'', url = ''http://b'', snippet = [], source = None, published_date = None\<rparr>]"
proof -
  let ?es = "[JObj [(''title'', JStr ''A''), (''description'', JStr ''no url'')],
          JObj [(''title'', JStr ''B''), (''url'', JStr ''http://b''), (''description'', JNull)],
          JStr ''C'']"
  let ?env = "\<lparr>search_prompt = ''Return a JSON array.'', fetch_prompt = ''Return Markdown.'',
      count_instruction = (\<lambda>lo hi. []), post = (\<lambda>r. Reply 200 ''[three entries]''),
      decode = (\<lambda>s. Some (JArr ?es)), strip_wrapping = (\<lambda>s. s)\<rparr>"
  let ?pc = "\<lparr>api_url = ''https://api.x.ai/v1'', api_key = ''k'', model = ''grok-4-fast''\<rparr>"
  have kept: "filter valid_entry (take (nat 10) ?es)
      = [JObj [(''title'', JStr ''B''), (''url'', JStr ''http://b''), (''description'', JNull)]]"
    by (simp add: valid_entry_def)
  have "fst (search ?env ?pc ''mcp'' [] 3 10)
        = Inr (map (the \<circ> to_result) (filter valid_entry (take (nat 10) ?es)))"
    by (rule search_drops_entries_without_title_or_url
          [where content = "''[three entries]''" and env = ?env and pc = ?pc and q = "''mcp''"
             and p = "[]" and lo = 3 and hi = 10 and es = ?es,
           THEN conjunct2, THEN conjunct1, rule_format])
       (simp add: decode_entries_def decode_array_def)
  then show ?thesis
    by (simp only: kept) (simp add: to_result_def valid_entry_def string_field_def)
qed

text \<open>
  Claim C5. For an argument that starts neither with \<open>http://\<close> nor with
  \<open>https://\<close>, \<^verbatim>\<open>fetch\<close> fails with \<^verbatim>\<open>InvalidInputError\<close> and has sent no request;
  for any other argument it sends exactly one and does not fail with that error.
\<close>

theorem fetch_refuses_non_http_url:
  "(\<not> (take 7 t = ''http://'' \<or> take 8 t = ''https://'') \<longrightarrow>
      (\<exists>m. fst (fetch env pc t) = Inl (InvalidInputError m)) \<and> snd (fetch env pc t) = [])
   \<and> (take 7 t = ''http://'' \<or> take 8 t = ''https://'' \<longrightarrow>
      (\<forall>m. fst (fetch env pc t) \<noteq> Inl (InvalidInputError m)) \<and> length (snd (fetch env pc t)) = 1)"
  by (auto simp: fetch_def http_url_def Let_def split: http_reply.splits)

theorem fetch_refuses_non_http_url_witness:
  "fetch
     \<lparr>search_prompt = ''Return a JSON array.'', fetch_prompt = ''Return Markdown.'',
      count_instruction = (\<lambda>lo hi. []), post = (\<lambda>r. Reply 200 ''# page''),
      decode = (\<lambda>s. None), strip_wrapping = (\<lambda>s. s)\<rparr>
     \<lparr>api_url = ''https://api.x.ai/v1'', api_key = ''k'', model = ''grok-4-fast''\<rparr>
     ''not-a-url''
   = (Inl (InvalidInputError ''URL must start with http:// or https://: not-a-url''), [])"
proof -
  let ?env = "\<lparr>search_prompt = ''Return a JSON array.'', fetch_prompt = ''Return Markdown.'',
      count_instruction = (\<lambda>lo hi. []), post = (\<lambda>r. Reply 200 ''# page''),
      decode = (\<lambda>s. None), strip_wrapping = (\<lambda>s. s)\<rparr>"
  let ?pc = "\<lparr>api_url = ''https://api.x.ai/v1'', api_key = ''k'', model = ''grok-4-fast''\<rparr>"
  have no: "\<not> (take 7 ''not-a-url'' = ''http://'' \<or> take 8 ''not-a-url'' = ''https://'')"
    by simp
  have "(\<exists>m. fst (fetch ?env ?pc ''not-a-url'') = Inl (InvalidInputError m))
      \<and> snd (fetch ?env ?pc ''not-a-url'') = []"
    using fetch_refuses_non_http_url [of "''not-a-url''" ?env ?pc, THEN conjunct1] no by blast
  then show ?thesis
    by (simp add: fetch_def http_url_def)
qed

end
